theory Spec2Isabelle
  imports Complex_Main "HOL-Library.Sublist"
begin

section \<open>Values and errors\<close>

text \<open>
  Python floats are modelled as exact reals; the non-finite floats that the metrics can
  produce (NaN, infinities) are written out where they arise. A date is a day number.
  An exception raised by the source is a value of \<open>py_error\<close>.
\<close>

type_synonym date = int

datatype py_error = ValueError string | ZeroDivisionError | TypeError | IndexError

section \<open>Trade (portfolio.py)\<close>

record Trade =
  entry_date :: date
  entry_price :: real
  shares :: real
  exit_date :: "date option"
  exit_price :: "real option"

definition is_open :: "Trade \<Rightarrow> bool" where
  "is_open t = (exit_date t = None)"

text \<open>Truthiness of an optional float: \<open>None\<close> and \<open>0.0\<close> are falsy.\<close>

definition truthy :: "real option \<Rightarrow> bool" where
  "truthy v = (case v of None \<Rightarrow> False | Some x \<Rightarrow> x \<noteq> 0)"

definition return_pct :: "Trade \<Rightarrow> py_error + real option" where
  "return_pct t =
     (if \<not> is_open t \<and> truthy (exit_price t) then
        (if entry_price t = 0 then Inl ZeroDivisionError
         else Inr (Some (((the (exit_price t) - entry_price t) / entry_price t) * 100)))
      else Inr None)"

section \<open>Portfolio (portfolio.py)\<close>

record EquitySnapshot =
  snap_date :: date
  portfolio_value :: real
  snap_cash :: real
  position_value :: real
  snap_shares_held :: real

record Portfolio =
  starting_capital :: real
  cash :: real
  commission_pct :: real
  shares_held :: real
  position_entry_price :: real
  trades :: "Trade list"
  current_trade :: "Trade option"
  equity_curve :: "EquitySnapshot list"

definition Portfolio_init :: "real \<Rightarrow> real \<Rightarrow> Portfolio" where
  "Portfolio_init sc cp =
     \<lparr> starting_capital = sc, cash = sc, commission_pct = cp,
       shares_held = 0, position_entry_price = 0,
       trades = [], current_trade = None, equity_curve = [] \<rparr>"

definition has_position :: "Portfolio \<Rightarrow> bool" where
  "has_position p = (shares_held p > 0)"

definition get_position_value :: "Portfolio \<Rightarrow> real \<Rightarrow> real" where
  "get_position_value p current_price = shares_held p * current_price"

definition get_total_value :: "Portfolio \<Rightarrow> real \<Rightarrow> real" where
  "get_total_value p current_price = cash p + get_position_value p current_price"

text \<open>
  \<open>buy\<close> returns the boolean of the source together with the portfolio after the call.
  With \<open>shares\<close> unspecified the size is a float division by the price, which raises
  \<open>ZeroDivisionError\<close> at price zero, before anything is written.
\<close>

definition buy :: "Portfolio \<Rightarrow> date \<Rightarrow> real \<Rightarrow> real option \<Rightarrow> py_error + (bool \<times> Portfolio)" where
  "buy p d price sh =
     (if has_position p then Inr (False, p)
      else if sh = None \<and> price = 0 then Inl ZeroDivisionError
      else
        let shares' = (case sh of None \<Rightarrow> (cash p * (1 - commission_pct p)) / price
                                 | Some s \<Rightarrow> s);
            cost = shares' * price;
            commission = cost * commission_pct p;
            total_cost = cost + commission
        in if total_cost > cash p then Inr (False, p)
           else Inr (True,
                  p\<lparr> cash := cash p - total_cost,
                     shares_held := shares',
                     position_entry_price := price,
                     current_trade := Some \<lparr> entry_date = d, entry_price = price,
                                              shares = shares', exit_date = None,
                                              exit_price = None \<rparr> \<rparr>))"

definition close_trade :: "Portfolio \<Rightarrow> date \<Rightarrow> real \<Rightarrow> Portfolio" where
  "close_trade p d price =
     (case current_trade p of
        None \<Rightarrow> p
      | Some t \<Rightarrow> p\<lparr> trades := trades p @ [t\<lparr> exit_date := Some d, exit_price := Some price \<rparr>],
                      current_trade := None \<rparr>)"

definition sell :: "Portfolio \<Rightarrow> date \<Rightarrow> real \<Rightarrow> bool \<times> Portfolio" where
  "sell p d price =
     (if \<not> has_position p then (False, p)
      else
        let proceeds = shares_held p * price;
            commission = proceeds * commission_pct p;
            net_proceeds = proceeds - commission;
            p1 = p\<lparr> cash := cash p + net_proceeds \<rparr>;
            p2 = close_trade p1 d price
        in (True, p2\<lparr> shares_held := 0, position_entry_price := 0 \<rparr>))"

definition record_day :: "Portfolio \<Rightarrow> date \<Rightarrow> real \<Rightarrow> Portfolio" where
  "record_day p d price =
     p\<lparr> equity_curve := equity_curve p @
          [\<lparr> snap_date = d, portfolio_value = get_total_value p price,
             snap_cash = cash p, position_value = get_position_value p price,
             snap_shares_held = shares_held p \<rparr>] \<rparr>"

definition get_closed_trades :: "Portfolio \<Rightarrow> Trade list" where
  "get_closed_trades p = filter (\<lambda>t. \<not> is_open t) (trades p)"

section \<open>Performance metrics (preformance\_metrics.py)\<close>

text \<open>
  The value of a float expression that may leave the finite range: pandas and numpy
  follow IEEE 754, where a division by zero gives an infinity or NaN instead of raising.
\<close>

datatype pyfloat = Fin real | PInf | NInf | NaN

definition fdiv :: "real \<Rightarrow> real \<Rightarrow> pyfloat" where
  "fdiv a b = (if b \<noteq> 0 then Fin (a / b)
               else if a = 0 then NaN else if 0 < a then PInf else NInf)"

definition fminus :: "pyfloat \<Rightarrow> real \<Rightarrow> pyfloat" where
  "fminus v k = (case v of Fin a \<Rightarrow> Fin (a - k) | PInf \<Rightarrow> PInf | NInf \<Rightarrow> NInf | NaN \<Rightarrow> NaN)"

definition ftimes :: "pyfloat \<Rightarrow> real \<Rightarrow> pyfloat" where
  "ftimes v k =
     (case v of
        Fin a \<Rightarrow> Fin (a * k)
      | PInf \<Rightarrow> (if 0 < k then PInf else if k < 0 then NInf else NaN)
      | NInf \<Rightarrow> (if 0 < k then NInf else if k < 0 then PInf else NaN)
      | NaN \<Rightarrow> NaN)"

text \<open>Float division of two such values (the zero of the model is the positive zero).\<close>

fun fquot :: "pyfloat \<Rightarrow> pyfloat \<Rightarrow> pyfloat" where
  "fquot (Fin a) (Fin b) = fdiv a b"
| "fquot NaN v = NaN"
| "fquot v NaN = NaN"
| "fquot (Fin a) v = Fin 0"
| "fquot PInf (Fin b) = (if 0 \<le> b then PInf else NInf)"
| "fquot NInf (Fin b) = (if 0 \<le> b then NInf else PInf)"
| "fquot v w = NaN"

definition is_fin :: "pyfloat \<Rightarrow> bool" where
  "is_fin v = (case v of Fin a \<Rightarrow> True | _ \<Rightarrow> False)"

definition fin_val :: "pyfloat \<Rightarrow> real" where
  "fin_val v = (case v of Fin a \<Rightarrow> a | _ \<Rightarrow> 0)"

text \<open>\<open>Series.pct_change()\<close>: each value divided by its predecessor, minus one; the
  first entry has no predecessor and is NaN.\<close>

fun pct_change_from :: "real \<Rightarrow> real list \<Rightarrow> pyfloat list" where
  "pct_change_from prev [] = []"
| "pct_change_from prev (x # xs) = fminus (fdiv x prev) 1 # pct_change_from x xs"

definition pct_change :: "real list \<Rightarrow> pyfloat list" where
  "pct_change xs = (case xs of [] \<Rightarrow> [] | x # rest \<Rightarrow> NaN # pct_change_from x rest)"

definition dropna :: "pyfloat list \<Rightarrow> pyfloat list" where
  "dropna vs = filter (\<lambda>v. v \<noteq> NaN) vs"

text \<open>\<open>Series.mean()\<close> and \<open>Series.std()\<close> (sample deviation, \<open>ddof = 1\<close>) of a
  series without NaN. The deviation of fewer than two observations is NaN, and so is
  the deviation of a series holding an infinity.\<close>

definition series_mean :: "pyfloat list \<Rightarrow> pyfloat" where
  "series_mean vs =
     (if vs = [] then NaN
      else if list_all is_fin vs then Fin (sum_list (map fin_val vs) / real (length vs))
      else if PInf \<in> set vs \<and> NInf \<in> set vs then NaN
      else if PInf \<in> set vs then PInf else NInf)"

definition series_std :: "pyfloat list \<Rightarrow> pyfloat" where
  "series_std vs =
     (if length vs < 2 \<or> \<not> list_all is_fin vs then NaN
      else let xs = map fin_val vs;
               m = sum_list xs / real (length xs)
           in Fin (sqrt (sum_list (map (\<lambda>x. (x - m)\<^sup>2) xs) / (real (length xs) - 1))))"

definition calculate_sharpe_ratio :: "real list \<Rightarrow> real \<Rightarrow> pyfloat" where
  "calculate_sharpe_ratio equity risk_free_rate =
     (let daily_returns = dropna (pct_change equity)
      in if length daily_returns = 0 \<or> series_std daily_returns = Fin 0 then Fin 0
         else
           let avg_return = ftimes (series_mean daily_returns) 252;
               std_return = ftimes (series_std daily_returns) (sqrt 252)
           in fquot (fminus avg_return risk_free_rate) std_return)"

text \<open>\<open>Series.expanding().max()\<close>: the running maximum.\<close>

fun expanding_max_from :: "real \<Rightarrow> real list \<Rightarrow> real list" where
  "expanding_max_from m [] = []"
| "expanding_max_from m (x # xs) = max m x # expanding_max_from (max m x) xs"

definition expanding_max :: "real list \<Rightarrow> real list" where
  "expanding_max xs = (case xs of [] \<Rightarrow> [] | x # rest \<Rightarrow> x # expanding_max_from x rest)"

text \<open>\<open>Series.min()\<close> skips NaN and is NaN when nothing is left.\<close>

fun fmin :: "pyfloat \<Rightarrow> pyfloat \<Rightarrow> pyfloat" where
  "fmin NInf v = NInf"
| "fmin v NInf = NInf"
| "fmin PInf v = v"
| "fmin v PInf = v"
| "fmin (Fin a) (Fin b) = Fin (min a b)"
| "fmin NaN v = v"
| "fmin v NaN = v"

definition series_min :: "pyfloat list \<Rightarrow> pyfloat" where
  "series_min vs = (case dropna vs of [] \<Rightarrow> NaN | v # rest \<Rightarrow> fold fmin rest v)"

definition drawdown :: "real list \<Rightarrow> pyfloat list" where
  "drawdown equity =
     map (\<lambda>(e, running_max). ftimes (fdiv (e - running_max) running_max) 100)
         (zip equity (expanding_max equity))"

definition calculate_max_drawdown :: "real list \<Rightarrow> pyfloat" where
  "calculate_max_drawdown equity =
     (let max_dd = series_min (drawdown equity)
      in if max_dd \<noteq> NaN then max_dd else Fin 0)"


section \<open>Trade statistics\<close>

definition return_dollars :: "Trade \<Rightarrow> real option" where
  "return_dollars t =
     (if \<not> is_open t \<and> truthy (exit_price t)
      then Some ((the (exit_price t) - entry_price t) * shares t) else None)"

definition holding_days :: "Trade \<Rightarrow> int option" where
  "holding_days t = (case exit_date t of None \<Rightarrow> None | Some d \<Rightarrow> Some (d - entry_date t))"

text \<open>
  The comprehension \<open>[t for t in trades if t.return_pct and cond(t.return_pct)]\<close>:
  a trade is kept when its \<open>return_pct\<close> is truthy (neither \<open>None\<close> nor zero) and
  satisfies the comparison; a \<open>ZeroDivisionError\<close> of \<open>return_pct\<close> ends it.
\<close>

fun select_trades :: "(real \<Rightarrow> bool) \<Rightarrow> Trade list \<Rightarrow> py_error + Trade list" where
  "select_trades cond [] = Inr []"
| "select_trades cond (t # ts) =
     (case return_pct t of
        Inl e \<Rightarrow> Inl e
      | Inr r \<Rightarrow>
          (case select_trades cond ts of
             Inl e \<Rightarrow> Inl e
           | Inr rest \<Rightarrow> Inr (if truthy r \<and> cond (the r) then t # rest else rest)))"

record TradeStatistics =
  total_trades :: nat
  winning_trades :: nat
  losing_trades :: nat
  win_rate_pct :: real
  avg_win_pct :: real
  avg_loss_pct :: real
  profit_factor :: real
  avg_holding_days :: real

definition pct_of :: "Trade \<Rightarrow> real" where
  "pct_of t = (case return_pct t of Inr (Some r) \<Rightarrow> r | _ \<Rightarrow> 0)"

definition calculate_trade_statistics :: "Trade list \<Rightarrow> py_error + TradeStatistics" where
  "calculate_trade_statistics ts =
     (if ts = [] then
        Inr \<lparr> total_trades = 0, winning_trades = 0, losing_trades = 0, win_rate_pct = 0,
              avg_win_pct = 0, avg_loss_pct = 0, profit_factor = 0, avg_holding_days = 0 \<rparr>
      else
        case select_trades (\<lambda>r. r > 0) ts of
          Inl e \<Rightarrow> Inl e
        | Inr winning \<Rightarrow>
        case select_trades (\<lambda>r. r \<le> 0) ts of
          Inl e \<Rightarrow> Inl e
        | Inr losing \<Rightarrow>
            let win_rate = (real (length winning) / real (length ts)) * 100;
                avg_win = (if winning \<noteq> []
                           then sum_list (map pct_of winning) / real (length winning) else 0);
                avg_loss = (if losing \<noteq> []
                            then sum_list (map pct_of losing) / real (length losing) else 0);
                total_wins = (if winning \<noteq> []
                              then sum_list (map (\<lambda>t. the (return_dollars t)) winning) else 0);
                total_losses = (if losing \<noteq> []
                                then \<bar>sum_list (map (\<lambda>t. the (return_dollars t)) losing)\<bar> else 0);
                pf = (if total_losses > 0 then total_wins / total_losses else 0)
            in if list_ex (\<lambda>t. holding_days t = None) ts then Inl TypeError
               else
                 Inr \<lparr> total_trades = length ts, winning_trades = length winning,
                       losing_trades = length losing, win_rate_pct = win_rate,
                       avg_win_pct = avg_win, avg_loss_pct = avg_loss, profit_factor = pf,
                       avg_holding_days =
                         real_of_int (sum_list (map (\<lambda>t. the (holding_days t)) ts))
                           / real (length ts) \<rparr>)"

section \<open>Strategies (base\_strategy.py, buy\_and\_hold.py and the five rule-based variants)\<close>

datatype signal = BUY | SELL | HOLD

text \<open>
  A DataFrame: the column names, and one row per date in index order; a row maps a
  column name to its value.
\<close>

record DataFrame =
  columns :: "string list"
  rows :: "(date \<times> (string \<Rightarrow> real)) list"

definition df_empty :: "DataFrame \<Rightarrow> bool" where
  "df_empty df = (rows df = [] \<or> columns df = [])"

text \<open>The decimal text of an integer, as an f-string prints a window parameter.\<close>

fun str_nat :: "nat \<Rightarrow> string" where
  "str_nat n = (if n < 10 then [''0123456789'' ! n]
                else str_nat (n div 10) @ [''0123456789'' ! (n mod 10)])"

declare str_nat.simps [simp del]

definition str_int :: "int \<Rightarrow> string" where
  "str_int i = (if i < 0 then ''-'' @ str_nat (nat (- i)) else str_nat (nat i))"

datatype strategy =
    BuyAndHold
  | SMACrossover int int
  | BreakoutStrategy int real
  | VolatilityBreakout int int real
  | BollingerMeanReversion int real
  | VolumeMomentum int real

fun name :: "strategy \<Rightarrow> string" where
  "name BuyAndHold = ''Buy and Hold''"
| "name (SMACrossover short_window long_window) =
     ''SMA Crossover ('' @ str_int short_window @ ''/'' @ str_int long_window @ '')''"
| "name (BreakoutStrategy window threshold_pct) = ''Breakout ('' @ str_int window @ ''-day)''"
| "name (VolatilityBreakout sma_window atr_window atr_multiplier) = ''ATR Volatility Breakout''"
| "name (BollingerMeanReversion window num_std) = ''Bollinger Mean Reversion''"
| "name (VolumeMomentum volume_window volume_multiplier) = ''Volume Momentum''"

fun get_required_columns :: "strategy \<Rightarrow> string list" where
  "get_required_columns BuyAndHold = [''close_price'']"
| "get_required_columns (SMACrossover short_window long_window) =
     [''close_price'', ''sma_'' @ str_int short_window, ''sma_'' @ str_int long_window]"
| "get_required_columns (BreakoutStrategy window threshold_pct) =
     [''close_price'', ''sma_'' @ str_int window]"
| "get_required_columns (VolatilityBreakout sma_window atr_window atr_multiplier) =
     [''close_price'', ''sma_'' @ str_int sma_window, ''atr_'' @ str_int atr_window]"
| "get_required_columns (BollingerMeanReversion window num_std) =
     [''close_price'', ''bollinger_upper'', ''bollinger_middle'', ''bollinger_lower'']"
| "get_required_columns (VolumeMomentum volume_window volume_multiplier) =
     [''close_price'', ''volume'', ''volume_sma_'' @ str_int volume_window, ''volume_ratio'']"

text \<open>
  \<open>validate_data\<close> prints the list of missing columns and returns \<open>False\<close> when there
  is one; the printed line is kept as the list it shows.
\<close>

datatype printed = MissingRequiredColumns "string list"

definition validate_data :: "strategy \<Rightarrow> DataFrame \<Rightarrow> bool \<times> printed list" where
  "validate_data st df =
     (let required = get_required_columns st;
          missing = filter (\<lambda>col. col \<notin> set (columns df)) required
      in if missing \<noteq> [] then (False, [MissingRequiredColumns missing]) else (True, []))"

text \<open>
  \<open>generate_signals\<close> returns what was printed and either the exception raised or the
  new \<open>signal\<close> column, one entry per row. BuyAndHold is written out. The five
  rule-based variants start with the same validation; their windowed comparisons on the
  indicator columns are the parameter \<open>rule\<close>, which gives the signal of row \<open>i\<close>.
\<close>

definition generate_signals ::
  "(strategy \<Rightarrow> DataFrame \<Rightarrow> nat \<Rightarrow> signal) \<Rightarrow> strategy \<Rightarrow> DataFrame
     \<Rightarrow> printed list \<times> (py_error + signal list)" where
  "generate_signals rule st df =
     (case validate_data st df of
        (False, out) \<Rightarrow>
          (out, Inl (ValueError (''DataFrame missing required columns for '' @ name st)))
      | (True, out) \<Rightarrow>
          (case st of
             BuyAndHold \<Rightarrow>
               (let sig = replicate (length (rows df)) HOLD
                in if sig = [] then (out, Inl IndexError) else (out, Inr (sig[0 := BUY])))
           | _ \<Rightarrow> (out, Inr (map (rule st df) [0..<length (rows df)]))))"

section \<open>Backtest engine (backtesting\_engine.py)\<close>

text \<open>
  The metrics record keeps the fields of \<open>calculate_all\<close> that are computed from the
  functions above; \<open>annualized_return_pct\<close>, a float power of the total return, is
  left out.
\<close>

record Metrics =
  m_starting_capital :: real
  final_value :: real
  total_return_pct :: pyfloat
  sharpe_ratio :: pyfloat
  max_drawdown_pct :: pyfloat
  volatility :: pyfloat
  num_days :: nat
  trade_statistics :: TradeStatistics

definition calculate_total_return :: "real list \<Rightarrow> real \<Rightarrow> py_error + pyfloat" where
  "calculate_total_return equity sc =
     (if equity = [] then Inl IndexError
      else Inr (ftimes (fdiv (last equity - sc) sc) 100))"

definition calculate_volatility :: "real list \<Rightarrow> pyfloat" where
  "calculate_volatility equity =
     (let daily_returns = dropna (pct_change equity)
      in if length daily_returns = 0 then Fin 0
         else ftimes (ftimes (series_std daily_returns) (sqrt 252)) 100)"

definition calculate_all :: "real list \<Rightarrow> real \<Rightarrow> Trade list \<Rightarrow> real \<Rightarrow> py_error + Metrics" where
  "calculate_all equity sc ts risk_free_rate =
     (case calculate_total_return equity sc of
        Inl e \<Rightarrow> Inl e
      | Inr total_return \<Rightarrow>
          (case calculate_trade_statistics ts of
             Inl e \<Rightarrow> Inl e
           | Inr trade_stats \<Rightarrow>
               Inr \<lparr> m_starting_capital = sc, final_value = last equity,
                     total_return_pct = total_return,
                     sharpe_ratio = calculate_sharpe_ratio equity risk_free_rate,
                     max_drawdown_pct = calculate_max_drawdown equity,
                     volatility = calculate_volatility equity,
                     num_days = length equity,
                     trade_statistics = trade_stats \<rparr>))"

record ResultsFrame =
  frame :: DataFrame
  signal_column :: "signal list"
  portfolio_value_column :: "real list"

record BacktestEngine =
  strategy :: strategy
  engine_starting_capital :: real
  engine_commission_pct :: real
  portfolio :: "Portfolio option"
  results_df :: "ResultsFrame option"
  metrics :: "Metrics option"

definition BacktestEngine_init :: "strategy \<Rightarrow> real \<Rightarrow> real \<Rightarrow> BacktestEngine" where
  "BacktestEngine_init st sc cp =
     \<lparr> strategy = st, engine_starting_capital = sc, engine_commission_pct = cp,
       portfolio = None, results_df = None, metrics = None \<rparr>"

text \<open>
  The trading loop over the rows \<open>(date, close_price, signal)\<close>. It returns the exception
  that ended it, if any, and the portfolio as the loop left it.
\<close>

fun simulate :: "Portfolio \<Rightarrow> (date \<times> real \<times> signal) list \<Rightarrow> py_error option \<times> Portfolio" where
  "simulate p [] = (None, p)"
| "simulate p ((d, price, sg) # rest) =
     (if sg = BUY \<and> \<not> has_position p then
        (case buy p d price None of
           Inl e \<Rightarrow> (Some e, p)
         | Inr (ok, p') \<Rightarrow> simulate (record_day p' d price) rest)
      else if sg = SELL \<and> has_position p then
        simulate (record_day (snd (sell p d price)) d price) rest
      else simulate (record_day p d price) rest)"

definition trading_rows :: "DataFrame \<Rightarrow> signal list \<Rightarrow> (date \<times> real \<times> signal) list" where
  "trading_rows df sigs = map (\<lambda>((d, r), sg). (d, r ''close_price'', sg)) (zip (rows df) sigs)"

definition close_open_position :: "Portfolio \<Rightarrow> DataFrame \<Rightarrow> Portfolio" where
  "close_open_position p df =
     (if has_position p
      then snd (sell p (fst (last (rows df))) (snd (last (rows df)) ''close_price''))
      else p)"

definition equity_series :: "Portfolio \<Rightarrow> real list" where
  "equity_series p = map portfolio_value (equity_curve p)"

text \<open>
  \<open>run\<close>: \<open>df\<close> is the frame that \<open>get_combined_data\<close> loaded for the ticker. The
  result is the exception raised, if any, and the engine object afterwards.
\<close>

definition run ::
  "(strategy \<Rightarrow> DataFrame \<Rightarrow> nat \<Rightarrow> signal) \<Rightarrow> BacktestEngine \<Rightarrow> string \<Rightarrow> DataFrame
     \<Rightarrow> py_error option \<times> BacktestEngine" where
  "run rule eng ticker df =
     (if df_empty df then (Some (ValueError (''No data found for '' @ ticker)), eng)
      else
        case snd (generate_signals rule (strategy eng) df) of
          Inl e \<Rightarrow> (Some e, eng)
        | Inr sigs \<Rightarrow>
            (case simulate (Portfolio_init (engine_starting_capital eng) (engine_commission_pct eng))
                           (trading_rows df sigs) of
               (Some e, p) \<Rightarrow> (Some e, eng\<lparr> portfolio := Some p \<rparr>)
             | (None, p1) \<Rightarrow>
                 let p2 = close_open_position p1 df;
                     eng1 = eng\<lparr> portfolio := Some p2,
                                results_df := Some \<lparr> frame = df, signal_column = sigs,
                                   portfolio_value_column = equity_series p2 \<rparr> \<rparr>
                 in (case calculate_all (equity_series p2) (engine_starting_capital eng)
                            (get_closed_trades p2) (2 / 100) of
                       Inl e \<Rightarrow> (Some e, eng1)
                     | Inr m \<Rightarrow> (None, eng1\<lparr> metrics := Some m \<rparr>))))"

section \<open>Sequences of portfolio operations\<close>

datatype operation = Buy date real "real option" | Sell date real | RecordDay date real

definition apply_operation :: "Portfolio \<Rightarrow> operation \<Rightarrow> py_error + Portfolio" where
  "apply_operation p op =
     (case op of
        Buy d price sh \<Rightarrow> (case buy p d price sh of Inl e \<Rightarrow> Inl e | Inr (ok, p') \<Rightarrow> Inr p')
      | Sell d price \<Rightarrow> Inr (snd (sell p d price))
      | RecordDay d price \<Rightarrow> Inr (record_day p d price))"

fun run_operations :: "Portfolio \<Rightarrow> operation list \<Rightarrow> py_error + Portfolio" where
  "run_operations p [] = Inr p"
| "run_operations p (op # ops) =
     (case apply_operation p op of Inl e \<Rightarrow> Inl e | Inr p' \<Rightarrow> run_operations p' ops)"

text \<open>
  The invariant of the specification: a position is held exactly when there is one open
  trade, the current one, and exactly then the recorded entry price is that trade's.
\<close>

definition open_trades :: "Portfolio \<Rightarrow> Trade list" where
  "open_trades p =
     filter is_open (trades p @ (case current_trade p of None \<Rightarrow> [] | Some t \<Rightarrow> [t]))"

definition portfolio_invariant :: "Portfolio \<Rightarrow> bool" where
  "portfolio_invariant p =
     (((shares_held p > 0) = (length (open_trades p) = 1 \<and> current_trade p \<noteq> None)) \<and>
      ((length (open_trades p) = 1 \<and> current_trade p \<noteq> None) =
         (case current_trade p of None \<Rightarrow> False
          | Some t \<Rightarrow> is_open t \<and> position_entry_price p = entry_price t)))"

text \<open>Operations at a positive price whose buys are sized by default or ask for a
  positive number of shares.\<close>

definition sized_operation :: "operation \<Rightarrow> bool" where
  "sized_operation op =
     (case op of
        Buy d price sh \<Rightarrow> 0 < price \<and> (case sh of None \<Rightarrow> True | Some s \<Rightarrow> 0 < s)
      | Sell d price \<Rightarrow> 0 < price
      | RecordDay d price \<Rightarrow> True)"

definition account_ok :: "Portfolio \<Rightarrow> bool" where
  "account_ok p =
     (commission_pct p < 1 \<and> list_all (\<lambda>t. \<not> is_open t) (trades p) \<and>
      (case current_trade p of
         None \<Rightarrow> shares_held p = 0 \<and> 0 < cash p
       | Some t \<Rightarrow> 0 < shares_held p \<and> 0 \<le> cash p \<and> is_open t \<and>
                   position_entry_price p = entry_price t))"

text \<open>The drawdown of the specification at position \<open>t\<close>: the distance of the value
  from the largest value up to \<open>t\<close>, as a percentage of that peak.\<close>

definition running_peak :: "real list \<Rightarrow> nat \<Rightarrow> real" where
  "running_peak equity t = Max (set (take (Suc t) equity))"

definition drawdown_spec :: "real list \<Rightarrow> nat \<Rightarrow> real" where
  "drawdown_spec equity t = (equity ! t - running_peak equity t) / running_peak equity t * 100"

text \<open>A row given by its named values, and a rule that never trades, for running the
  engine on explicit frames.\<close>

definition row_of :: "(string \<times> real) list \<Rightarrow> string \<Rightarrow> real" where
  "row_of kv col = (case map_of kv col of Some v \<Rightarrow> v | None \<Rightarrow> 0)"

definition hold_rule :: "strategy \<Rightarrow> DataFrame \<Rightarrow> nat \<Rightarrow> signal" where
  "hold_rule st df i = HOLD"

text \<open>The trades of a run never have entry price zero: a default-sized buy at price
  zero raises instead.\<close>

definition entries_nonzero :: "Portfolio \<Rightarrow> bool" where
  "entries_nonzero p =
     (list_all (\<lambda>t. entry_price t \<noteq> 0) (trades p) \<and>
      (case current_trade p of None \<Rightarrow> True | Some t \<Rightarrow> entry_price t \<noteq> 0))"


section \<open>Refused orders\<close>

text \<open>
  C4. \<open>buy\<close> returns \<open>False\<close> and leaves every field of the portfolio as it was when a
  position is held, or when the total cost, shares times price times one plus the
  commission rate, exceeds the cash; \<open>sell\<close> returns \<open>False\<close> and leaves the portfolio
  as it was when no position is held.
\<close>

theorem refused_orders_leave_state:
  "((has_position p \<or>
      (\<exists>s. (sh = Some s \<or>
             (sh = None \<and> price \<noteq> 0 \<and> s = cash p * (1 - commission_pct p) / price))
           \<and> s * price * (1 + commission_pct p) > cash p))
     \<longrightarrow> buy p d price sh = Inr (False, p))
   \<and> (\<not> has_position p \<longrightarrow> sell p d price = (False, p))"
  by (auto simp: buy_def sell_def Let_def algebra_simps split: option.splits)

theorem refused_orders_leave_state_witness:
  "buy (Portfolio_init 100 0) 0 100 (Some 2) = Inr (False, Portfolio_init 100 0)
   \<and> buy ((Portfolio_init 100 0)\<lparr>shares_held := 1\<rparr>) 0 100 None
       = Inr (False, (Portfolio_init 100 0)\<lparr>shares_held := 1\<rparr>)
   \<and> sell (Portfolio_init 100 0) 0 100 = (False, Portfolio_init 100 0)"
proof -
  have a: "\<not> has_position (Portfolio_init 100 0)"
    by (simp add: has_position_def Portfolio_init_def)
  have b: "has_position ((Portfolio_init 100 0)\<lparr>shares_held := 1\<rparr>)"
    by (simp add: has_position_def Portfolio_init_def)
  have c: "\<exists>s. (Some 2 = Some s \<or>
                 (Some (2::real) = None \<and> (100::real) \<noteq> 0 \<and>
                  s = cash (Portfolio_init 100 0) * (1 - commission_pct (Portfolio_init 100 0)) / 100))
           \<and> s * 100 * (1 + commission_pct (Portfolio_init 100 0)) > cash (Portfolio_init 100 0)"
    by (rule exI[of _ 2]) (simp add: Portfolio_init_def)
  show ?thesis
    using refused_orders_leave_state[of "Portfolio_init 100 0" "Some 2" 100 0]
          refused_orders_leave_state[of "(Portfolio_init 100 0)\<lparr>shares_held := 1\<rparr>" None 100 0]
          a b c
    by blast
qed

section \<open>Default sizing\<close>



section \<open>The portfolio invariant\<close>

lemma account_ok_invariant: "account_ok p \<Longrightarrow> portfolio_invariant p"
  by (auto simp: account_ok_def portfolio_invariant_def open_trades_def list_all_iff
        filter_empty_conv split: option.splits)

lemma account_ok_init: "0 < sc \<Longrightarrow> c < 1 \<Longrightarrow> account_ok (Portfolio_init sc c)"
  by (simp add: account_ok_def Portfolio_init_def)

lemma account_ok_record_day: "account_ok p \<Longrightarrow> account_ok (record_day p d price)"
  by (simp add: account_ok_def record_day_def split: option.splits)

lemma account_ok_sell:
  assumes "account_ok p" and "0 < price"
  shows "account_ok (snd (sell p d price))"
proof (cases "has_position p")
  case False
  then show ?thesis using assms by (simp add: sell_def)
next
  case True
  then obtain t where t: "current_trade p = Some t"
    using assms(1) by (auto simp: account_ok_def has_position_def split: option.splits)
  have sh: "0 < shares_held p" using True by (simp add: has_position_def)
  have c: "commission_pct p < 1"
    using assms(1) by (simp add: account_ok_def)
  have "0 < shares_held p * price * (1 - commission_pct p)"
    using sh assms(2) c by simp
  then have pos: "0 < shares_held p * price - shares_held p * price * commission_pct p"
    by (simp add: algebra_simps)
  have cash0: "0 \<le> cash p" using assms(1) t by (simp add: account_ok_def)
  have cl: "list_all (\<lambda>t. \<not> is_open t) (trades p)" using assms(1) by (simp add: account_ok_def)
  show ?thesis
    using True t c cl cash0 pos
    by (simp add: sell_def Let_def close_trade_def account_ok_def is_open_def)
qed

lemma account_ok_buy:
  assumes "account_ok p" and "0 < price" and "case sh of None \<Rightarrow> True | Some s \<Rightarrow> 0 < s"
  shows "\<exists>ok p'. buy p d price sh = Inr (ok, p') \<and> account_ok p'"
proof (cases "has_position p")
  case True
  then have "buy p d price sh = Inr (False, p)" by (simp add: buy_def)
  then show ?thesis using assms(1) by blast
next
  case False
  then have flat: "current_trade p = None" "0 < cash p"
    using assms(1) by (auto simp: account_ok_def has_position_def split: option.splits)
  have c: "commission_pct p < 1"
    using assms(1) by (simp add: account_ok_def)
  have cl: "list_all (\<lambda>t. \<not> is_open t) (trades p)" using assms(1) by (simp add: account_ok_def)
  define s where
    "s = (case sh of None \<Rightarrow> (cash p * (1 - commission_pct p)) / price | Some s \<Rightarrow> s)"
  have spos: "0 < s"
    using assms(2,3) flat(2) c by (cases sh) (simp_all add: s_def)
  show ?thesis
  proof (cases "s * price + s * price * commission_pct p > cash p")
    case True
    then have "buy p d price sh = Inr (False, p)"
      using False assms(2) by (cases sh) (simp_all add: buy_def Let_def s_def)
    then show ?thesis using assms(1) by blast
  next
    case nt: False
    have "buy p d price sh = Inr (True,
             p\<lparr> cash := cash p - (s * price + s * price * commission_pct p),
                shares_held := s, position_entry_price := price,
                current_trade := Some \<lparr> entry_date = d, entry_price = price, shares = s,
                                         exit_date = None, exit_price = None \<rparr> \<rparr>)"
      using False nt assms(2) by (cases sh) (simp_all add: buy_def Let_def s_def)
    moreover have "account_ok (p\<lparr> cash := cash p - (s * price + s * price * commission_pct p),
                shares_held := s, position_entry_price := price,
                current_trade := Some \<lparr> entry_date = d, entry_price = price, shares = s,
                                         exit_date = None, exit_price = None \<rparr> \<rparr>)"
      using nt spos c cl by (simp add: account_ok_def is_open_def)
    ultimately show ?thesis by blast
  qed
qed

lemma account_ok_apply:
  assumes "account_ok p" and "sized_operation op"
  shows "\<exists>p'. apply_operation p op = Inr p' \<and> account_ok p'"
proof (cases op)
  case (Buy d price sh)
  then have "0 < price" "case sh of None \<Rightarrow> True | Some s \<Rightarrow> 0 < s"
    using assms(2) by (simp_all add: sized_operation_def)
  from account_ok_buy[OF assms(1) this, of d] Buy show ?thesis
    by (auto simp: apply_operation_def)
next
  case (Sell d price)
  then show ?thesis
    using assms account_ok_sell[of p price d] by (simp add: apply_operation_def sized_operation_def)
next
  case (RecordDay d price)
  then show ?thesis
    using assms(1) account_ok_record_day by (simp add: apply_operation_def)
qed

lemma account_ok_run:
  "account_ok p \<Longrightarrow> list_all sized_operation ops
     \<Longrightarrow> \<exists>p'. run_operations p ops = Inr p' \<and> account_ok p'"
proof (induction ops arbitrary: p)
  case Nil
  then show ?case by simp
next
  case (Cons op ops)
  then obtain p1 where p1: "apply_operation p op = Inr p1" "account_ok p1"
    using account_ok_apply[of p op] by auto
  with Cons show ?case by simp
qed

text \<open>
  C1, as stated: after every operation of every sequence of buy, sell and record\_day
  on a fresh portfolio, a position is held exactly when one open trade exists, the
  current one, and exactly then the entry price recorded is that trade's. A buy that
  asks for zero shares is executed and opens a trade without a position.
\<close>

theorem zero_share_buy_breaks_invariant:
  "run_operations (Portfolio_init 10000 (1/1000)) [Buy 0 100 (Some 0)]
     = Inr ((Portfolio_init 10000 (1/1000))
              \<lparr> position_entry_price := 100,
                current_trade := Some \<lparr> entry_date = 0, entry_price = 100, shares = 0,
                                         exit_date = None, exit_price = None \<rparr> \<rparr>)
   \<and> \<not> portfolio_invariant ((Portfolio_init 10000 (1/1000))
              \<lparr> position_entry_price := 100,
                current_trade := Some \<lparr> entry_date = 0, entry_price = 100, shares = 0,
                                         exit_date = None, exit_price = None \<rparr> \<rparr>)"
  by (simp add: apply_operation_def buy_def has_position_def Portfolio_init_def Let_def
        portfolio_invariant_def open_trades_def is_open_def)

text \<open>
  C1, amended: on a fresh portfolio with positive starting capital and a commission rate
  below one, every sequence of operations at positive prices, whose buys leave the
  shares unspecified or ask for a positive number, raises nothing and keeps the
  invariant after every operation.
\<close>

theorem invariant_after_every_operation:
  assumes "0 < sc" and "c < 1" and "list_all sized_operation ops" and "n \<le> length ops"
  shows "\<exists>p. run_operations (Portfolio_init sc c) (take n ops) = Inr p \<and> portfolio_invariant p"
proof -
  have "list_all sized_operation (take n ops)"
    using assms(3) by (auto simp: list_all_iff dest: in_set_takeD)
  with account_ok_run[OF account_ok_init[OF assms(1,2)]] account_ok_invariant
  show ?thesis by blast
qed

theorem invariant_after_every_operation_witness:
  "\<exists>p. run_operations (Portfolio_init 10000 (1/1000))
          (take 3 [Buy 0 100 None, RecordDay 0 100, Sell 1 110, RecordDay 1 110]) = Inr p
       \<and> portfolio_invariant p"
  using invariant_after_every_operation[of 10000 "1/1000"
          "[Buy 0 100 None, RecordDay 0 100, Sell 1 110, RecordDay 1 110]" 3]
  by (simp add: sized_operation_def)

section \<open>Trade statistics and the Sharpe ratio at the boundary\<close>

text \<open>
  C5. A closed trade whose exit price equals its entry price has \<open>return_pct\<close> zero;
  \<open>calculate_trade_statistics\<close> counts it neither as winning nor as losing, so the two
  counts do not add up to the total.
\<close>

theorem zero_return_trade_is_not_counted:
  "calculate_trade_statistics
     [\<lparr> entry_date = 0, entry_price = 100, shares = 1, exit_date = Some 1, exit_price = Some 100 \<rparr>]
   = Inr \<lparr> total_trades = 1, winning_trades = 0, losing_trades = 0, win_rate_pct = 0,
           avg_win_pct = 0, avg_loss_pct = 0, profit_factor = 0, avg_holding_days = 1 \<rparr>"
  by (simp add: calculate_trade_statistics_def return_pct_def is_open_def truthy_def
        holding_days_def)

lemma fquot_NaN_right: "fquot v NaN = NaN"
  by (cases v) simp_all

lemma sharpe_without_observations:
  "length equity \<le> 1 \<Longrightarrow> calculate_sharpe_ratio equity risk_free_rate = Fin 0"
proof (cases equity)
  case Nil
  then show ?thesis by (simp add: calculate_sharpe_ratio_def pct_change_def dropna_def)
next
  case (Cons x rest)
  assume "length equity \<le> 1"
  then have "rest = []" using Cons by simp
  then show ?thesis
    using Cons by (simp add: calculate_sharpe_ratio_def pct_change_def dropna_def)
qed

lemma sharpe_zero_deviation:
  "series_std (dropna (pct_change equity)) = Fin 0
     \<Longrightarrow> calculate_sharpe_ratio equity risk_free_rate = Fin 0"
  by (simp add: calculate_sharpe_ratio_def Let_def)

lemma sharpe_formula:
  assumes "series_mean (dropna (pct_change equity)) = Fin m"
    and "series_std (dropna (pct_change equity)) = Fin s" and "s \<noteq> 0"
  shows "calculate_sharpe_ratio equity risk_free_rate
           = Fin ((m * 252 - risk_free_rate) / (s * sqrt 252))"
proof -
  have "dropna (pct_change equity) \<noteq> []"
    using assms(2) by (auto simp: series_std_def)
  then show ?thesis
    using assms by (simp add: calculate_sharpe_ratio_def Let_def ftimes_def fminus_def fdiv_def)
qed

text \<open>
  C2. An equity curve of two points has one daily return; its sample deviation is NaN,
  which is not equal to zero, and \<open>calculate_sharpe_ratio\<close> returns NaN.
\<close>

theorem sharpe_of_two_points_is_nan:
  "calculate_sharpe_ratio [100, 110] risk_free_rate = NaN"
  by (simp add: calculate_sharpe_ratio_def pct_change_def dropna_def fminus_def fdiv_def
        series_std_def ftimes_def Let_def fquot_NaN_right)

section \<open>Maximum drawdown\<close>

lemma length_expanding_max_from: "length (expanding_max_from m xs) = length xs"
  by (induction xs arbitrary: m) simp_all

lemma expanding_max_from_nth:
  "i < length xs \<Longrightarrow> expanding_max_from m xs ! i = Max (insert m (set (take (Suc i) xs)))"
proof (induction xs arbitrary: m i)
  case Nil
  then show ?case by simp
next
  case (Cons x xs)
  show ?case
  proof (cases i)
    case 0
    then show ?thesis by (simp add: max.commute)
  next
    case (Suc j)
    then have j: "j < length xs" using Cons.prems by simp
    define S where "S = set (take (Suc j) xs)"
    have S: "finite S" "S \<noteq> {}" using j by (auto simp: S_def)
    have "expanding_max_from m (x # xs) ! i = Max (insert (max m x) S)"
      using Suc Cons.IH[OF j] by (simp add: S_def)
    also have "\<dots> = max (max m x) (Max S)"
      by (rule Max_insert[OF S])
    also have "\<dots> = Max (insert m (insert x S))"
      using S by (simp add: max.assoc)
    finally show ?thesis using Suc by (simp add: S_def)
  qed
qed

lemma length_expanding_max: "length (expanding_max xs) = length xs"
  by (cases xs) (simp_all add: expanding_max_def length_expanding_max_from)

lemma expanding_max_nth: "t < length xs \<Longrightarrow> expanding_max xs ! t = running_peak xs t"
proof (cases xs)
  case Nil
  then show "t < length xs \<Longrightarrow> ?thesis" by simp
next
  case (Cons x rest)
  assume t: "t < length xs"
  show ?thesis
  proof (cases t)
    case 0
    then show ?thesis using Cons by (simp add: expanding_max_def running_peak_def)
  next
    case (Suc j)
    then have "j < length rest" using t Cons by simp
    then show ?thesis
      using Cons Suc by (simp add: expanding_max_def running_peak_def expanding_max_from_nth)
  qed
qed

lemma running_peak_ge: "t < length xs \<Longrightarrow> xs ! t \<le> running_peak xs t"
proof -
  assume t: "t < length xs"
  then have "xs ! t \<in> set (take (Suc t) xs)"
    by (metis in_set_conv_nth length_take lessI min_less_iff_conj nth_take)
  then show ?thesis by (simp add: running_peak_def)
qed

lemma running_peak_pos:
  assumes "t < length xs" and "\<forall>x\<in>set xs. 0 < x"
  shows "0 < running_peak xs t"
proof -
  have "0 < xs ! t" using assms by simp
  with running_peak_ge[OF assms(1)] show ?thesis by linarith
qed

lemma running_peak_sorted:
  assumes "t < length xs" and "sorted xs"
  shows "running_peak xs t = xs ! t"
proof -
  have "running_peak xs t \<le> xs ! t"
    unfolding running_peak_def
  proof (rule Max.boundedI)
    show "finite (set (take (Suc t) xs))" by simp
    show "set (take (Suc t) xs) \<noteq> {}" using assms(1) by auto
    fix a assume "a \<in> set (take (Suc t) xs)"
    then obtain i where i: "i < Suc t" "i < length xs" "a = xs ! i"
      by (auto simp: in_set_conv_nth)
    then show "a \<le> xs ! t"
      using assms by (simp add: sorted_nth_mono)
  qed
  with running_peak_ge[OF assms(1)] show ?thesis by linarith
qed

lemma drawdown_positive_curve:
  assumes "\<forall>x\<in>set equity. 0 < x"
  shows "drawdown equity = map (\<lambda>t. Fin (drawdown_spec equity t)) [0..<length equity]"
proof (rule nth_equalityI)
  show "length (drawdown equity) = length (map (\<lambda>t. Fin (drawdown_spec equity t)) [0..<length equity])"
    by (simp add: drawdown_def length_expanding_max)
next
  fix t assume "t < length (drawdown equity)"
  then have t: "t < length equity" by (simp add: drawdown_def length_expanding_max)
  have "running_peak equity t \<noteq> 0" using running_peak_pos[OF t assms] by simp
  then show "drawdown equity ! t = map (\<lambda>t. Fin (drawdown_spec equity t)) [0..<length equity] ! t"
    using t by (simp add: drawdown_def length_expanding_max expanding_max_nth fdiv_def
        ftimes_def drawdown_spec_def)
qed

lemma dropna_map_Fin: "dropna (map Fin ys) = map Fin ys"
  by (induction ys) (simp_all add: dropna_def)

lemma fold_fmin_Fin: "fold fmin (map Fin ys) (Fin a) = Fin (fold min ys a)"
  by (induction ys arbitrary: a) (simp_all add: min.commute)

lemma series_min_map_Fin: "ys \<noteq> [] \<Longrightarrow> series_min (map Fin ys) = Fin (Min (set ys))"
proof (cases ys)
  case Nil
  then show "ys \<noteq> [] \<Longrightarrow> ?thesis" by simp
next
  case (Cons y rest)
  have "dropna (map Fin ys) = Fin y # map Fin rest"
    unfolding dropna_map_Fin using Cons by simp
  then have "series_min (map Fin ys) = Fin (fold min rest y)"
    by (simp add: series_min_def fold_fmin_Fin)
  also have "fold min rest y = Min (set ys)"
    unfolding Cons by (rule Min.set_eq_fold[symmetric])
  finally show ?thesis .
qed

text \<open>
  C7. For every non-empty equity curve of positive values, \<open>calculate_max_drawdown\<close>
  returns the least, over the positions \<open>t\<close>, of
  \<open>(equity[t] - running_max_up_to_t) / running_max_up_to_t * 100\<close>; this value is at most
  zero, and it is zero when the curve is non-decreasing.
\<close>

theorem max_drawdown_is_least_drawdown:
  assumes "equity \<noteq> []" and "\<forall>x\<in>set equity. 0 < x"
  shows "calculate_max_drawdown equity = Fin (Min (drawdown_spec equity ` {..<length equity}))
         \<and> Min (drawdown_spec equity ` {..<length equity}) \<le> 0
         \<and> (sorted equity \<longrightarrow> Min (drawdown_spec equity ` {..<length equity}) = 0)"
proof -
  let ?D = "drawdown_spec equity ` {..<length equity}"
  have ne: "map (drawdown_spec equity) [0..<length equity] \<noteq> []" using assms(1) by simp
  have "drawdown equity = map Fin (map (drawdown_spec equity) [0..<length equity])"
    using drawdown_positive_curve[OF assms(2)] by (simp add: comp_def)
  then have "series_min (drawdown equity) = Fin (Min (set (map (drawdown_spec equity) [0..<length equity])))"
    using series_min_map_Fin[OF ne] by simp
  moreover have "set (map (drawdown_spec equity) [0..<length equity]) = ?D"
    by (simp add: lessThan_atLeast0)
  ultimately have a: "calculate_max_drawdown equity = Fin (Min ?D)"
    by (simp add: calculate_max_drawdown_def)
  have fin: "finite ?D" and nonempty: "?D \<noteq> {}" using assms(1) by auto
  have le0: "drawdown_spec equity t \<le> 0" if "t < length equity" for t
  proof -
    have "equity ! t - running_peak equity t \<le> 0" using running_peak_ge[OF that] by simp
    moreover have "0 < running_peak equity t" using running_peak_pos[OF that assms(2)] .
    ultimately have "(equity ! t - running_peak equity t) / running_peak equity t \<le> 0"
      by (simp add: divide_nonpos_pos)
    then have "(equity ! t - running_peak equity t) / running_peak equity t * 100 \<le> 0"
      by (rule mult_nonpos_nonneg) simp
    then show ?thesis by (simp only: drawdown_spec_def)
  qed
  have "drawdown_spec equity 0 \<in> ?D" using assms(1) by auto
  then have "Min ?D \<le> drawdown_spec equity 0" using fin by (rule_tac Min_le)
  moreover have "drawdown_spec equity 0 \<le> 0" using le0 assms(1) by simp
  ultimately have b: "Min ?D \<le> 0" by linarith
  have c: "Min ?D = 0" if "sorted equity"
  proof -
    have "drawdown_spec equity t = 0" if "t < length equity" for t
      using running_peak_sorted[OF that \<open>sorted equity\<close>] by (simp add: drawdown_spec_def)
    then have "?D = {0}" using nonempty by auto
    then show ?thesis by simp
  qed
  show ?thesis using a b c by blast
qed

theorem max_drawdown_is_least_drawdown_witness:
  "calculate_max_drawdown [100, 90, 120]
     = Fin (Min (drawdown_spec [100, 90, 120] ` {..<length [100, 90, 120 :: real]}))
   \<and> Min (drawdown_spec [100, 90, 120] ` {..<length [100, 90, 120 :: real]}) \<le> 0
   \<and> calculate_max_drawdown [100, 90, 120] = Fin (- 10)
   \<and> sorted [100, 110, 110 :: real]
   \<and> calculate_max_drawdown [100, 110, 110] = Fin 0"
proof -
  have h: "[100, 90, 120 :: real] \<noteq> []" "\<forall>x\<in>set [100, 90, 120 :: real]. 0 < x" by simp_all
  have e1: "calculate_max_drawdown [100, 90, 120] = Fin (- 10)"
    by (simp add: calculate_max_drawdown_def series_min_def drawdown_def expanding_max_def
        fdiv_def ftimes_def dropna_def)
  have h2: "[100, 110, 110 :: real] \<noteq> []" "\<forall>x\<in>set [100, 110, 110 :: real]. 0 < x"
    "sorted [100, 110, 110 :: real]" by simp_all
  have e2: "calculate_max_drawdown [100, 110, 110] = Fin 0"
    using max_drawdown_is_least_drawdown[OF h2(1,2)] h2(3) by simp
  show ?thesis
    using max_drawdown_is_least_drawdown[OF h] e1 e2 h2(3) by blast
qed

section \<open>Strategy validation\<close>

text \<open>
  C9, as stated: when a required field is missing, \<open>generate_signals\<close> fails with an
  error that names the missing fields. The error raised for BuyAndHold on a frame
  without \<open>close_price\<close> names the strategy; the missing field is in the printed line
  only.
\<close>

theorem missing_fields_error_names_strategy_only:
  "generate_signals hold_rule BuyAndHold \<lparr> columns = [''volume''], rows = [] \<rparr>
     = ([MissingRequiredColumns [''close_price'']],
        Inl (ValueError ''DataFrame missing required columns for Buy and Hold''))
   \<and> \<not> sublist ''close_price'' ''DataFrame missing required columns for Buy and Hold''"
proof
  show "generate_signals hold_rule BuyAndHold \<lparr> columns = [''volume''], rows = [] \<rparr>
     = ([MissingRequiredColumns [''close_price'']],
        Inl (ValueError ''DataFrame missing required columns for Buy and Hold''))"
    by (simp add: generate_signals_def validate_data_def)
  show "\<not> sublist ''close_price'' ''DataFrame missing required columns for Buy and Hold''"
    by code_simp
qed

text \<open>
  C9, amended: for every strategy variant and every frame that lacks at least one of
  the variant's required columns, \<open>generate_signals\<close> prints the list of the missing
  columns, raises a \<open>ValueError\<close> whose message names the strategy, and produces no
  signal column.
\<close>

theorem missing_fields_are_printed_and_rejected:
  assumes "\<exists>col \<in> set (get_required_columns st). col \<notin> set (columns df)"
  shows "generate_signals rule st df
           = ([MissingRequiredColumns
                 (filter (\<lambda>col. col \<notin> set (columns df)) (get_required_columns st))],
              Inl (ValueError (''DataFrame missing required columns for '' @ name st)))
         \<and> filter (\<lambda>col. col \<notin> set (columns df)) (get_required_columns st) \<noteq> []"
proof -
  have "filter (\<lambda>col. col \<notin> set (columns df)) (get_required_columns st) \<noteq> []"
    using assms by (simp add: filter_empty_conv)
  then show ?thesis
    by (simp add: generate_signals_def validate_data_def Let_def)
qed

theorem missing_fields_are_printed_and_rejected_witness:
  "generate_signals hold_rule (SMACrossover 5 20)
       \<lparr> columns = [''close_price'', ''sma_5''], rows = [(0, row_of [(''close_price'', 100)])] \<rparr>
     = ([MissingRequiredColumns [''sma_20'']],
        Inl (ValueError ''DataFrame missing required columns for SMA Crossover (5/20)''))"
proof -
  have n: "str_int 5 = ''5''" "str_int 20 = ''20''"
    by (simp_all add: str_int_def str_nat.simps)
  have h: "\<exists>col \<in> set (get_required_columns (SMACrossover 5 20)).
             col \<notin> set (columns \<lparr> columns = [''close_price'', ''sma_5''],
                                   rows = [(0, row_of [(''close_price'', 100)])] \<rparr>)"
    by (simp add: n)
  show ?thesis
    using missing_fields_are_printed_and_rejected[OF h, of hold_rule] by (simp add: n)
qed

section \<open>The engine\<close>

text \<open>
  C8. Given an empty input series, \<open>run\<close> fails with the no-data error (a
  \<open>ValueError\<close> with the message \<open>No data found for\<close> and the ticker) and leaves the
  engine as it was: no signals are generated, no portfolio is constructed and no
  metrics are computed.
\<close>

theorem run_rejects_empty_input:
  "rows df = [] \<Longrightarrow>
     run rule eng ticker df = (Some (ValueError (''No data found for '' @ ticker)), eng)"
  by (simp add: run_def df_empty_def)

theorem run_rejects_empty_input_witness:
  "run hold_rule (BacktestEngine_init (SMACrossover 5 20) 10000 (1/1000)) ''AAPL''
       \<lparr> columns = [''close_price''], rows = [] \<rparr>
     = (Some (ValueError ''No data found for AAPL''),
        \<lparr> strategy = SMACrossover 5 20, engine_starting_capital = 10000,
          engine_commission_pct = 1/1000, portfolio = None, results_df = None,
          metrics = None \<rparr>)"
  using run_rejects_empty_input[of "\<lparr> columns = [''close_price''], rows = [] \<rparr>" hold_rule
          "BacktestEngine_init (SMACrossover 5 20) 10000 (1/1000)" "''AAPL''"]
  by (simp add: BacktestEngine_init_def)

section \<open>The trading loop\<close>

lemma record_day_fields:
  "cash (record_day p d x) = cash p"
  "shares_held (record_day p d x) = shares_held p"
  "commission_pct (record_day p d x) = commission_pct p"
  "trades (record_day p d x) = trades p"
  "current_trade (record_day p d x) = current_trade p"
  "has_position (record_day p d x) = has_position p"
  "equity_curve (record_day p d x) \<noteq> []"
  "portfolio_value (last (equity_curve (record_day p d x))) = cash p + shares_held p * x"
  by (simp_all add: record_day_def has_position_def get_total_value_def get_position_value_def)





lemma buy_keeps_commission:
  "buy p d price sh = Inr (ok, p') \<Longrightarrow> commission_pct p' = commission_pct p"
  by (auto simp: buy_def Let_def split: if_splits)

lemma sell_keeps_commission: "commission_pct (snd (sell p d price)) = commission_pct p"
  by (simp add: sell_def Let_def close_trade_def split: option.splits)

lemma buy_default_entries:
  "buy p d price None = Inr (ok, p') \<Longrightarrow> entries_nonzero p \<Longrightarrow> entries_nonzero p'"
  by (auto simp: buy_def Let_def entries_nonzero_def split: if_splits)

lemma sell_entries: "entries_nonzero p \<Longrightarrow> entries_nonzero (snd (sell p d price))"
  by (auto simp: sell_def Let_def close_trade_def entries_nonzero_def split: option.splits)

lemma record_day_entries: "entries_nonzero (record_day p d x) = entries_nonzero p"
  by (simp add: entries_nonzero_def record_day_fields)

lemma simulate_keeps:
  "simulate p rs = (err, p1) \<Longrightarrow>
     commission_pct p1 = commission_pct p \<and> (entries_nonzero p \<longrightarrow> entries_nonzero p1)"
proof (induction p rs rule: simulate.induct)
  case (1 p)
  then show ?case by simp
next
  case (2 p d price sg rest)
  show ?case
  proof (cases "sg = BUY \<and> \<not> has_position p")
    case True
    show ?thesis
    proof (cases "buy p d price None")
      case (Inl e)
      then show ?thesis using 2(4) True by simp
    next
      case (Inr r)
      obtain ok p' where r: "r = (ok, p')" by (cases r)
      have "simulate (record_day p' d price) rest = (err, p1)"
        using 2(4) True Inr r by simp
      from 2(1)[OF True Inr r[symmetric] this]
      show ?thesis
        using buy_keeps_commission[of p d price None ok p'] buy_default_entries[of p d price ok p']
          Inr r by (simp add: record_day_fields record_day_entries)
    qed
  next
    case nb: False
    show ?thesis
    proof (cases "sg = SELL \<and> has_position p")
      case True
      have "simulate (record_day (snd (sell p d price)) d price) rest = (err, p1)"
        using 2(4) nb True by simp
      from 2(2)[OF nb True this] show ?thesis
        using sell_entries[of p d price]
        by (simp add: record_day_fields record_day_entries sell_keeps_commission)
    next
      case False
      have "simulate (record_day p d price) rest = (err, p1)"
        using 2(4) nb False by auto
      from 2(3)[OF nb False this] show ?thesis
        by (simp add: record_day_fields record_day_entries)
    qed
  qed
qed

lemma simulate_last_snapshot:
  "simulate p rs = (None, p1) \<Longrightarrow> rs \<noteq> [] \<Longrightarrow>
     equity_curve p1 \<noteq> [] \<and>
     portfolio_value (last (equity_curve p1))
       = cash p1 + shares_held p1 * fst (snd (last rs))"
proof (induction p rs rule: simulate.induct)
  case (1 p)
  then show ?case by simp
next
  case (2 p d price sg rest)
  have step: "\<And>q. simulate q rest = (None, p1) \<Longrightarrow>
                (rest \<noteq> [] \<Longrightarrow> equity_curve p1 \<noteq> [] \<and>
                   portfolio_value (last (equity_curve p1))
                     = cash p1 + shares_held p1 * fst (snd (last rest))) \<Longrightarrow>
                equity_curve q \<noteq> [] \<Longrightarrow>
                portfolio_value (last (equity_curve q)) = cash q + shares_held q * price \<Longrightarrow>
                ?case"
    by (cases "rest = []") auto
  show ?case
  proof (cases "sg = BUY \<and> \<not> has_position p")
    case True
    show ?thesis
    proof (cases "buy p d price None")
      case (Inl e)
      then show ?thesis using 2(4) True by simp
    next
      case (Inr r)
      obtain ok p' where r: "r = (ok, p')" by (cases r)
      have s: "simulate (record_day p' d price) rest = (None, p1)"
        using 2(4) True Inr r by simp
      show ?thesis
        by (rule step[OF s 2(1)[OF True Inr r[symmetric] s]]) (simp_all add: record_day_fields)
    qed
  next
    case nb: False
    show ?thesis
    proof (cases "sg = SELL \<and> has_position p")
      case True
      have s: "simulate (record_day (snd (sell p d price)) d price) rest = (None, p1)"
        using 2(4) nb True by simp
      show ?thesis
        by (rule step[OF s 2(2)[OF nb True s]]) (simp_all add: record_day_fields)
    next
      case False
      have s: "simulate (record_day p d price) rest = (None, p1)"
        using 2(4) nb False by auto
      show ?thesis
        by (rule step[OF s 2(3)[OF nb False s]]) (simp_all add: record_day_fields)
    qed
  qed
qed

section \<open>Metrics of a finished run\<close>

lemma select_trades_total:
  "list_all (\<lambda>t. entry_price t \<noteq> 0) ts \<Longrightarrow> \<exists>r. select_trades cond ts = Inr r"
  by (induction ts) (auto simp: return_pct_def)

lemma calculate_trade_statistics_total:
  assumes "list_all (\<lambda>t. entry_price t \<noteq> 0) ts" and "list_all (\<lambda>t. \<not> is_open t) ts"
  shows "\<exists>st. calculate_trade_statistics ts = Inr st"
proof -
  obtain w where w: "select_trades (\<lambda>r. r > 0) ts = Inr w"
    using select_trades_total[OF assms(1)] by blast
  obtain l where l: "select_trades (\<lambda>r. r \<le> 0) ts = Inr l"
    using select_trades_total[OF assms(1)] by blast
  have "\<not> list_ex (\<lambda>t. holding_days t = None) ts"
    using assms(2)
    by (auto simp: list_ex_iff list_all_iff holding_days_def is_open_def split: option.splits)
  then show ?thesis
    by (simp add: calculate_trade_statistics_def w l Let_def)
qed

lemma calculate_all_total:
  assumes "equity \<noteq> []" and "list_all (\<lambda>t. entry_price t \<noteq> 0) ts"
    and "list_all (\<lambda>t. \<not> is_open t) ts"
  shows "\<exists>m. calculate_all equity sc ts rf = Inr m \<and> final_value m = last equity"
proof -
  obtain st where "calculate_trade_statistics ts = Inr st"
    using calculate_trade_statistics_total[OF assms(2,3)] by blast
  then show ?thesis
    using assms(1) by (simp add: calculate_all_def calculate_total_return_def)
qed

lemma closed_trades_ok:
  "entries_nonzero p \<Longrightarrow>
     list_all (\<lambda>t. entry_price t \<noteq> 0) (get_closed_trades p) \<and>
     list_all (\<lambda>t. \<not> is_open t) (get_closed_trades p)"
  by (auto simp: entries_nonzero_def get_closed_trades_def list_all_iff)

lemma generate_signals_length:
  "snd (generate_signals rule st df) = Inr sigs \<Longrightarrow> length sigs = length (rows df)"
  by (auto simp: generate_signals_def split: prod.splits bool.splits strategy.splits if_splits)

lemma close_open_position_fields:
  "equity_curve (close_open_position p df) = equity_curve p"
  "entries_nonzero p \<Longrightarrow> entries_nonzero (close_open_position p df)"
  using sell_entries[of p]
  by (auto simp: close_open_position_def sell_def Let_def close_trade_def split: option.splits)

lemma run_completes:
  assumes "\<not> df_empty df"
    and "snd (generate_signals rule (strategy eng) df) = Inr sigs"
    and "simulate (Portfolio_init (engine_starting_capital eng) (engine_commission_pct eng))
           (trading_rows df sigs) = (None, p1)"
  shows "\<exists>m. run rule eng ticker df =
               (None, eng\<lparr> portfolio := Some (close_open_position p1 df),
                           results_df := Some \<lparr> frame = df, signal_column = sigs,
                              portfolio_value_column = equity_series (close_open_position p1 df) \<rparr>,
                           metrics := Some m \<rparr>)
             \<and> final_value m = portfolio_value (last (equity_curve p1))
             \<and> equity_curve p1 \<noteq> []"
proof -
  have len: "length sigs = length (rows df)" using generate_signals_length[OF assms(2)] .
  have ne: "trading_rows df sigs \<noteq> []"
    using assms(1) len by (auto simp: trading_rows_def df_empty_def)
  have curve: "equity_curve p1 \<noteq> []" using simulate_last_snapshot[OF assms(3) ne] by simp
  have "entries_nonzero (Portfolio_init (engine_starting_capital eng) (engine_commission_pct eng))"
    by (simp add: entries_nonzero_def Portfolio_init_def)
  then have "entries_nonzero p1" using simulate_keeps[OF assms(3)] by simp
  then have ok: "entries_nonzero (close_open_position p1 df)"
    by (rule close_open_position_fields(2))
  have es: "equity_series (close_open_position p1 df) \<noteq> []"
    using curve by (simp add: equity_series_def close_open_position_fields(1))
  obtain m where m: "calculate_all (equity_series (close_open_position p1 df))
                       (engine_starting_capital eng)
                       (get_closed_trades (close_open_position p1 df)) (2 / 100) = Inr m"
      "final_value m = last (equity_series (close_open_position p1 df))"
    using calculate_all_total[OF es] closed_trades_ok[OF ok] by blast
  have "final_value m = portfolio_value (last (equity_curve p1))"
    using m(2) curve by (simp add: equity_series_def close_open_position_fields(1) last_map)
  moreover have "run rule eng ticker df =
               (None, eng\<lparr> portfolio := Some (close_open_position p1 df),
                           results_df := Some \<lparr> frame = df, signal_column = sigs,
                              portfolio_value_column = equity_series (close_open_position p1 df) \<rparr>,
                           metrics := Some m \<rparr>)"
    using assms m(1) by (simp add: run_def Let_def)
  ultimately show ?thesis using curve by blast
qed

section \<open>Buy and hold\<close>




section \<open>The forced close and the reported final value\<close>

text \<open>
  C10. In every run whose loop ends with a position held, the forced closing sell comes
  after the snapshot of the last date: the equity curve is the one the loop recorded,
  the final value handed to the metrics is the cash plus the shares held times the
  last close, and it exceeds the cash after the run by exactly the shares held times
  the last close times the commission rate.
\<close>

theorem forced_close_not_in_final_value:
  assumes "\<not> df_empty df"
    and "snd (generate_signals rule (strategy eng) df) = Inr sigs"
    and "simulate (Portfolio_init (engine_starting_capital eng) (engine_commission_pct eng))
           (trading_rows df sigs) = (None, p1)"
    and "has_position p1"
  shows "\<exists>eng' p2 m. run rule eng ticker df = (None, eng')
           \<and> portfolio eng' = Some p2 \<and> metrics eng' = Some m
           \<and> equity_curve p2 = equity_curve p1
           \<and> \<not> has_position p2
           \<and> final_value m = cash p1 + shares_held p1 * snd (last (rows df)) ''close_price''
           \<and> final_value m - cash p2
               = shares_held p1 * snd (last (rows df)) ''close_price'' * engine_commission_pct eng"
proof -
  let ?x = "snd (last (rows df)) ''close_price''"
  let ?p2 = "close_open_position p1 df"
  have len: "length sigs = length (rows df)" using generate_signals_length[OF assms(2)] .
  have rne: "rows df \<noteq> []" using assms(1) by (simp add: df_empty_def)
  have tne: "trading_rows df sigs \<noteq> []"
    using rne len by (auto simp: trading_rows_def)
  have sne: "sigs \<noteq> []" using rne len by auto
  have zne: "zip (rows df) sigs \<noteq> []" using rne sne by (cases "rows df"; cases sigs) auto
  have "last (zip (rows df) sigs) = (last (rows df), last sigs)"
    using rne sne len by (simp add: last_zip)
  then have "last (trading_rows df sigs) = (fst (last (rows df)), ?x, last sigs)"
    unfolding trading_rows_def last_map[OF zne] by (simp add: case_prod_beta)
  then have lastv: "portfolio_value (last (equity_curve p1)) = cash p1 + shares_held p1 * ?x"
    using simulate_last_snapshot[OF assms(3) tne] by simp
  have com: "commission_pct p1 = engine_commission_pct eng"
    using simulate_keeps[OF assms(3)] by (simp add: Portfolio_init_def)
  have cash2: "cash ?p2 = cash p1 + (shares_held p1 * ?x - shares_held p1 * ?x * commission_pct p1)"
    using assms(4)
    by (simp add: close_open_position_def sell_def Let_def close_trade_def split: option.splits)
  have flat2: "\<not> has_position ?p2"
    using assms(4)
    by (simp add: close_open_position_def sell_def Let_def close_trade_def has_position_def
        split: option.splits)
  obtain m where m: "run rule eng ticker df =
               (None, eng\<lparr> portfolio := Some ?p2,
                           results_df := Some \<lparr> frame = df, signal_column = sigs,
                              portfolio_value_column = equity_series ?p2 \<rparr>,
                           metrics := Some m \<rparr>)"
      "final_value m = portfolio_value (last (equity_curve p1))"
    using run_completes[OF assms(1-3)] by blast
  have "final_value m - cash ?p2 = shares_held p1 * ?x * engine_commission_pct eng"
    unfolding m(2) lastv cash2 com by simp
  then show ?thesis
    using m lastv flat2 close_open_position_fields(1)[of p1 df] by simp
qed

theorem forced_close_not_in_final_value_witness:
  "\<exists>eng' p2 m. run hold_rule (BacktestEngine_init BuyAndHold 10000 (1/10)) ''AAPL''
               \<lparr> columns = [''close_price''],
                 rows = [(0, row_of [(''close_price'', 100)]), (1, row_of [(''close_price'', 110)])] \<rparr>
             = (None, eng')
           \<and> portfolio eng' = Some p2 \<and> metrics eng' = Some m
           \<and> final_value m = 100 + 90 * 110
           \<and> final_value m - cash p2 = 90 * 110 * (1/10)"
proof -
  let ?df = "\<lparr> columns = [''close_price''],
                rows = [(0, row_of [(''close_price'', 100)]), (1, row_of [(''close_price'', 110)])] \<rparr>"
  let ?eng = "BacktestEngine_init BuyAndHold 10000 (1/10)"
  let ?p1 = "snd (simulate (Portfolio_init 10000 (1/10)) (trading_rows ?df [BUY, HOLD]))"
  have a: "\<not> df_empty ?df" by (simp add: df_empty_def)
  have b: "snd (generate_signals hold_rule (strategy ?eng) ?df) = Inr [BUY, HOLD]"
    by (simp add: generate_signals_def validate_data_def BacktestEngine_init_def)
  have ev: "simulate (Portfolio_init 10000 (1/10)) (trading_rows ?df [BUY, HOLD])
              = (None, record_day (record_day ((Portfolio_init 10000 (1/10))
                   \<lparr> cash := 100, shares_held := 90, position_entry_price := 100,
                     current_trade := Some \<lparr> entry_date = 0, entry_price = 100, shares = 90,
                        exit_date = None, exit_price = None \<rparr> \<rparr>) 0 100) 1 110)"
    by (simp add: trading_rows_def row_of_def has_position_def Portfolio_init_def buy_def
        Let_def record_day_fields)
  have c: "simulate (Portfolio_init (engine_starting_capital ?eng) (engine_commission_pct ?eng))
             (trading_rows ?df [BUY, HOLD]) = (None, ?p1)"
    unfolding ev by (simp add: BacktestEngine_init_def ev)
  have f: "cash ?p1 = 100" "shares_held ?p1 = 90"
    unfolding ev by (simp_all add: record_day_fields)
  have d: "has_position ?p1" using f by (simp add: has_position_def)
  have x: "snd (last (rows ?df)) ''close_price'' = 110" by (simp add: row_of_def)
  show ?thesis
    using forced_close_not_in_final_value[OF a b c d, of "''AAPL''"]
    unfolding x f by (auto simp: BacktestEngine_init_def)
qed

end
